theory Spec2Isabelle
  imports Complex_Main "HOL-Library.Word"
begin

section \<open>The MQ131 ozone sensor driver (MQ131.cpp)\<close>

text \<open>
  The driver is one C++ class, \<open>MQ131Class\<close>. Its member variables become the fields
  of a record, every member function becomes a function from the state (and its inputs)
  to its result and the updated state. The two sources of input, the clock
  \<^verbatim>\<open>millis()\<close> and the analog pin \<^verbatim>\<open>analogRead(pinSensor)\<close>, are arguments.

  Numbers. The integer variables keep their width (\<^verbatim>\<open>uint8_t\<close> is \<open>8 word\<close>, and so on).
  A finite \<^verbatim>\<open>float\<close> is a \<open>real\<close>. The functions \<open>convert\<close>, \<open>getEnvCorrectRatio\<close>
  and \<open>getO3\<close> compute with the arithmetic of the reals: they give the expression that
  each branch of the code evaluates, without the rounding to the 24 bits of a
  \<^verbatim>\<open>float\<close>, and without the infinities and the not-a-number that float arithmetic
  produces where the reals have no value. Two places add what a claim there depends on:
  \<open>readRs\<close> divides by a voltage that the reading 0 makes zero, and has the non-finite
  results of IEEE 754 written out; \<open>convert_binary32\<close> rounds what \<open>convert\<close> returns
  to the nearest \<^verbatim>\<open>float\<close>.
\<close>

subsection \<open>Enumerations\<close>

text \<open>
  \<^verbatim>\<open>MQ131Model\<close>: the three enumerators that \<^verbatim>\<open>begin\<close> and \<^verbatim>\<open>getO3\<close> switch over.
\<close>

datatype MQ131Model = LOW_CONCENTRATION | ETC_CONCENTRATION | HIGH_CONCENTRATION

text \<open>
  \<^verbatim>\<open>MQ131Unit\<close>: the four enumerators named in \<^verbatim>\<open>convert\<close>. A C++ enumeration can
  hold a value of its underlying type that is none of its enumerators; \<^verbatim>\<open>convert\<close>
  has a \<^verbatim>\<open>default\<close> branch for it, so the model has such values too.
\<close>

datatype MQ131Unit = PPM | PPB | MG_M3 | UG_M3 | UNKNOWN_UNIT nat

subsection \<open>The state\<close>

text \<open>
  The member variables that the functions below read and write. Their declarations are
  in \<^verbatim>\<open>MQ131.h\<close>; the types here are the ones the member functions give them:
  \<^verbatim>\<open>getTimeToRead\<close> returns \<^verbatim>\<open>secToRead\<close> as a \<^verbatim>\<open>long\<close>, \<^verbatim>\<open>stopHeater\<close> stores
  \<open>-1\<close> in \<^verbatim>\<open>secLastStart\<close> and \<^verbatim>\<open>isTimeToRead\<close> adds the two, the constructor
  stores a \<^verbatim>\<open>uint32_t\<close> in \<^verbatim>\<open>valueRL\<close>, \<^verbatim>\<open>readRs\<close> returns the \<^verbatim>\<open>float\<close> that
  \<^verbatim>\<open>sample\<close> stores in \<^verbatim>\<open>lastValueRs\<close>, \<^verbatim>\<open>setR0\<close> stores a \<^verbatim>\<open>float\<close>.
  A \<^verbatim>\<open>long\<close> has 32 bits on the boards the driver is written for; it is a
  \<open>32 word\<close> read with \<open>sint\<close>. The temperature and the humidity hold the values of
  the \<^verbatim>\<open>int8_t\<close> and the \<^verbatim>\<open>uint8_t\<close> that \<^verbatim>\<open>setEnv\<close> receives, as integers.
  \<open>heater\<close> is the level that \<^verbatim>\<open>digitalWrite\<close> last gave the pin \<^verbatim>\<open>pinPower\<close>.
\<close>

record MQ131 =
  model :: MQ131Model
  valueRL :: "32 word"
  secLastStart :: "32 word"
  secToRead :: "32 word"
  lastValueRs :: real
  valueR0 :: real
  temperatureCelsuis :: int
  humidityPercent :: int
  heater :: bool

text \<open>
  Modelled from the spec: the initial values of the member variables, which
  \<^verbatim>\<open>MQ131.h\<close> (not among the sources) gives. The spec has the last measured
  resistance "unset" and the heater "not running" until a sample is taken and the
  heater is started; the code tests both with \<^verbatim>\<open>< 0\<close> and \<^verbatim>\<open>stopHeater\<close> writes
  \<open>-1\<close>, so \<open>-1\<close> stands for both. \<open>unstarted m rl r0 t2r\<close> is the state after the
  constructor and \<^verbatim>\<open>begin\<close>, for a model \<open>m\<close>, a load resistance \<open>rl\<close> and the
  defaults \<open>r0\<close> and \<open>t2r\<close> of that model (macros of the header), at the reference
  conditions of the spec (20 degrees, 60 percent).
\<close>

definition unstarted :: "MQ131Model \<Rightarrow> 32 word \<Rightarrow> real \<Rightarrow> 32 word \<Rightarrow> MQ131" where
  "unstarted m rl r0 t2r =
     \<lparr> model = m, valueRL = rl, secLastStart = - 1, secToRead = t2r,
       lastValueRs = - 1, valueR0 = r0, temperatureCelsuis = 20, humidityPercent = 60,
       heater = False \<rparr>"

subsection \<open>The heater (lines 103 to 144)\<close>

text \<open>
  \<open>ms\<close> is the value of \<^verbatim>\<open>millis()\<close>, an \<^verbatim>\<open>unsigned long\<close>. In \<^verbatim>\<open>isTimeToRead\<close> the
  sum of two \<^verbatim>\<open>long\<close> is compared with an \<^verbatim>\<open>unsigned long\<close>: C++ converts the sum
  to \<^verbatim>\<open>unsigned long\<close>, so the comparison is the unsigned one of \<open>32 word\<close>.
\<close>

definition startHeater :: "32 word \<Rightarrow> MQ131 \<Rightarrow> MQ131" where
  "startHeater ms s = s\<lparr> heater := True, secLastStart := ms div 1000 \<rparr>"

definition getTimeToRead :: "MQ131 \<Rightarrow> 32 word" where
  "getTimeToRead s = secToRead s"


definition stopHeater :: "MQ131 \<Rightarrow> MQ131" where
  "stopHeater s = s\<lparr> heater := False, secLastStart := - 1 \<rparr>"

definition setTimeToRead :: "32 word \<Rightarrow> MQ131 \<Rightarrow> MQ131" where
  "setTimeToRead sec s = s\<lparr> secToRead := sec \<rparr>"

definition setR0 :: "real \<Rightarrow> MQ131 \<Rightarrow> MQ131" where
  "setR0 r s = s\<lparr> valueR0 := r \<rparr>"

definition getR0 :: "MQ131 \<Rightarrow> real" where
  "getR0 s = valueR0 s"

subsection \<open>Environment (lines 162 to 191)\<close>

definition setEnv :: "8 word \<Rightarrow> 8 word \<Rightarrow> MQ131 \<Rightarrow> MQ131" where
  "setEnv tempCels humPc s =
     s\<lparr> temperatureCelsuis := sint tempCels, humidityPercent := uint humPc \<rparr>"

text \<open>The three lines fitted at 30, 60 and 85 percent of humidity.\<close>

definition Hratio30 :: "int \<Rightarrow> real" where
  "Hratio30 t = - 0.0141 * real_of_int t + 1.5623"

definition Hratio60 :: "int \<Rightarrow> real" where
  "Hratio60 t = - 0.0119 * real_of_int t + 1.3261"

definition Hratio85 :: "int \<Rightarrow> real" where
  "Hratio85 t = - 0.0103 * real_of_int t + 1.1507"

text \<open>
  The expressions of the two \<^verbatim>\<open>return\<close> statements of lines 185 and 190. The
  humidity is promoted to \<^verbatim>\<open>int\<close> before 60 or 30 is subtracted, so the difference
  can be negative.
\<close>

definition ratio_above_60 :: "int \<Rightarrow> int \<Rightarrow> real" where
  "ratio_above_60 t h =
     Hratio60 t + (Hratio85 t - Hratio60 t) * real_of_int (h - 60) / real_of_int (85 - 60)"

definition ratio_below_60 :: "int \<Rightarrow> int \<Rightarrow> real" where
  "ratio_below_60 t h =
     Hratio30 t + (Hratio60 t - Hratio30 t) * real_of_int (h - 30) / real_of_int (60 - 30)"

definition getEnvCorrectRatio :: "MQ131 \<Rightarrow> real" where
  "getEnvCorrectRatio s =
     (if humidityPercent s = 60 \<and> temperatureCelsuis s = 20 then 1.06
      else if humidityPercent s > 60
        then ratio_above_60 (temperatureCelsuis s) (humidityPercent s)
      else ratio_below_60 (temperatureCelsuis s) (humidityPercent s))"

subsection \<open>\<^verbatim>\<open>convert\<close> (lines 231 to 266)\<close>

definition convert :: "real \<Rightarrow> MQ131Unit \<Rightarrow> MQ131Unit \<Rightarrow> real" where
  "convert input unitIn unitOut =
     (if unitIn = unitOut then input
      else case unitOut of
          PPM \<Rightarrow> input / 1000.0
        | PPB \<Rightarrow> input * 1000.0
        | MG_M3 \<Rightarrow>
            (let concentration = (if unitIn = PPM then input else input / 1000.0)
             in concentration * 48.0 / 22.71108)
        | UG_M3 \<Rightarrow>
            (let concentration = (if unitIn = PPB then input else input * 1000.0)
             in concentration * 48.0 / 22.71108)
        | UNKNOWN_UNIT _ \<Rightarrow> input)"

subsection \<open>\<^verbatim>\<open>getO3\<close> (lines 196 to 226)\<close>

text \<open>
  \<^verbatim>\<open>pow(ratio, e)\<close> is \<open>ratio powr e\<close>: both are 0 at \<open>ratio = 0\<close> and
  \<open>exp (e * ln ratio)\<close> for a positive ratio. The \<^verbatim>\<open>default\<close> branch of the
  \<^verbatim>\<open>switch\<close> is not reached by any of the three models.

  The function below is the code where the float operations have finite results: for
  \<open>valueR0 \<noteq> 0\<close> and a ratio that is not negative. At \<open>valueR0 = 0\<close> the code
  divides by zero and gets an infinity or not-a-number, and for a negative ratio
  \<^verbatim>\<open>pow\<close> with these exponents returns not-a-number; the division and \<open>powr\<close> of the
  reals have other values there, so what is proved of the computed concentration is
  stated for the other states only. (The test \<open>lastValueRs < 0\<close> comes before any of
  this.)
\<close>

definition getO3 :: "MQ131 \<Rightarrow> MQ131Unit \<Rightarrow> real" where
  "getO3 s unit =
     (if lastValueRs s < 0 then 0.0
      else case model s of
          LOW_CONCENTRATION \<Rightarrow>
            (let ratio = lastValueRs s / valueR0 s * getEnvCorrectRatio s
             in convert (9.4783 * ratio powr 2.3348) PPB unit)
        | ETC_CONCENTRATION \<Rightarrow>
            (let ratio = lastValueRs s / valueR0 s * getEnvCorrectRatio s
             in convert (23.8887 * ratio powr 1.1101) PPB unit)
        | HIGH_CONCENTRATION \<Rightarrow>
            (let ratio = lastValueRs s / valueR0 s * getEnvCorrectRatio s
             in convert (8.1399 * ratio powr 2.3297) PPM unit))"

subsection \<open>\<^verbatim>\<open>readRs\<close> (lines 149 to 157)\<close>

text \<open>
  The value of a \<^verbatim>\<open>float\<close> expression: a finite number, one of the two infinities,
  or not a number. \<^verbatim>\<open>readRs\<close> divides by \<^verbatim>\<open>vRL\<close>, which is zero when the pin reads 0;
  IEEE 754 arithmetic then goes on with an infinity, it does not trap. The three
  operations of line 155 follow, with a finite right operand each.
\<close>

datatype float_val = Finite real | PosInf | NegInf | NaN

text \<open>
  \<open>a / b\<close> for finite \<open>a\<close> and \<open>b\<close>. A zero divisor is the positive zero here:
  \<^verbatim>\<open>vRL\<close> comes from an unsigned reading.
\<close>

definition float_div :: "real \<Rightarrow> real \<Rightarrow> float_val" where
  "float_div a b =
     (if b \<noteq> 0 then Finite (a / b)
      else if a > 0 then PosInf
      else if a < 0 then NegInf
      else NaN)"

definition float_sub :: "float_val \<Rightarrow> real \<Rightarrow> float_val" where
  "float_sub x c =
     (case x of Finite r \<Rightarrow> Finite (r - c) | PosInf \<Rightarrow> PosInf | NegInf \<Rightarrow> NegInf
      | NaN \<Rightarrow> NaN)"

definition float_mul :: "float_val \<Rightarrow> real \<Rightarrow> float_val" where
  "float_mul x c =
     (case x of
        Finite r \<Rightarrow> Finite (r * c)
      | PosInf \<Rightarrow> (if c > 0 then PosInf else if c < 0 then NegInf else NaN)
      | NegInf \<Rightarrow> (if c > 0 then NegInf else if c < 0 then PosInf else NaN)
      | NaN \<Rightarrow> NaN)"

definition is_finite :: "float_val \<Rightarrow> bool" where
  "is_finite x = (case x of Finite _ \<Rightarrow> True | _ \<Rightarrow> False)"

text \<open>
  \<open>valueSensor\<close> is what \<^verbatim>\<open>analogRead(pinSensor)\<close> returned, stored in a
  \<^verbatim>\<open>uint16_t\<close>. The function has no other branch than the one below.
\<close>

definition readRs :: "16 word \<Rightarrow> MQ131 \<Rightarrow> float_val" where
  "readRs valueSensor s =
     (let vRL = real (unat valueSensor) / 1024.0 * 5.0;
          rS = float_mul (float_sub (float_div 5.0 vRL) 1.0) (real (unat (valueRL s)))
      in rS)"

subsection \<open>Rounding to \<^verbatim>\<open>float\<close>\<close>

text \<open>
  A \<^verbatim>\<open>float\<close> is an IEEE 754 binary32 number: 24 bits of mantissa, exponents from
  \<open>-126\<close> to 127. \<open>binary32 x\<close> is the \<^verbatim>\<open>float\<close> that an operation with the exact
  result \<open>x\<close> returns, by rounding to the nearest, ties to the even mantissa.
  \<open>binary32_ulp x\<close> is the distance of the floats around \<open>x\<close>: \<open>2 ^ (e - 23)\<close> for
  \<open>2 ^ e \<le> \<bar>x\<bar> < 2 ^ (e + 1)\<close>, and \<open>2 ^ (- 149)\<close> below \<open>2 ^ (- 126)\<close>. A result that
  rounds to \<open>2 ^ 128\<close> or more is an infinity. (The sign of a zero is not kept.)
\<close>

definition round_even :: "real \<Rightarrow> int" where
  "round_even r =
     (let f = \<lfloor>r\<rfloor>
      in if r - of_int f < 1 / 2 then f
         else if 1 / 2 < r - of_int f then f + 1
         else if even f then f else f + 1)"

definition binary32_ulp :: "real \<Rightarrow> real" where
  "binary32_ulp x = 2 powr of_int (max \<lfloor>log 2 \<bar>x\<bar>\<rfloor> (- 126) - 23)"

definition binary32 :: "real \<Rightarrow> float_val" where
  "binary32 x =
     (if x = 0 then Finite 0
      else let r = of_int (round_even (x / binary32_ulp x)) * binary32_ulp x
           in if 2 ^ 128 \<le> \<bar>r\<bar> then (if 0 < x then PosInf else NegInf) else Finite r)"

text \<open>
  What \<^verbatim>\<open>convert\<close> returns as a \<^verbatim>\<open>float\<close>, for a \<^verbatim>\<open>float\<close> \<open>input\<close>: the input
  itself when the units are equal, and else the value of the branch, rounded. To PPM
  and to PPB (lines 243 and 248) the branch is one division or one multiplication of
  a \<^verbatim>\<open>float\<close> by 1000, and the rounded quotient or product is the \<^verbatim>\<open>float\<close> that the
  \<^verbatim>\<open>return\<close> gives. (To the mass units the code rounds in between as well; these
  branches are not used with this function.)
\<close>

definition convert_binary32 :: "real \<Rightarrow> MQ131Unit \<Rightarrow> MQ131Unit \<Rightarrow> float_val" where
  "convert_binary32 input unitIn unitOut =
     (if unitIn = unitOut then Finite input else binary32 (convert input unitIn unitOut))"

subsection \<open>\<^verbatim>\<open>calibrate\<close> (lines 271 to 326)\<close>

text \<open>
  The conversion \<^verbatim>\<open>(uint32_t)\<close> of a \<^verbatim>\<open>float\<close> drops the fraction. (C++ defines it
  for values that fit in 32 bits after that.)
\<close>

definition uint32_of_float :: "real \<Rightarrow> 32 word" where
  "uint32_of_float v = word_of_int (if 0 \<le> v then \<lfloor>v\<rfloor> else \<lceil>v\<rceil>)"

text \<open>The three local variables of \<^verbatim>\<open>calibrate\<close>.\<close>

record calibration =
  lastRsValue :: real
  countReadInRow :: "8 word"
  count :: "8 word"

text \<open>
  One pass through the body of the \<^verbatim>\<open>while\<close> loop, \<open>v\<close> being the value that
  \<^verbatim>\<open>readRs()\<close> returned in this pass (a finite one).
\<close>

definition calibrate_body :: "real \<Rightarrow> calibration \<Rightarrow> calibration" where
  "calibrate_body v c =
     (let c1 = (if uint32_of_float (lastRsValue c) \<noteq> uint32_of_float v
                then c\<lparr> lastRsValue := v, countReadInRow := 0 \<rparr>
                else c\<lparr> countReadInRow := countReadInRow c + 1 \<rparr>)
      in c1\<lparr> count := count c1 + 1 \<rparr>)"

text \<open>
  The loop, run on the list of the values that the successive calls of \<^verbatim>\<open>readRs()\<close>
  return. The loop has no bound of its own. When it ends, the result is the variables
  and the readings not taken. When the readings are used up and the condition of the
  loop still holds, the loop goes on to take a further reading: the result is \<open>None\<close>.
\<close>

fun calibrate_loop :: "8 word \<Rightarrow> real list \<Rightarrow> calibration \<Rightarrow> (calibration \<times> real list) option" where
  "calibrate_loop timeToReadConsistency [] c =
     (if countReadInRow c \<le> timeToReadConsistency then None else Some (c, []))"
| "calibrate_loop timeToReadConsistency (v # vs) c =
     (if countReadInRow c \<le> timeToReadConsistency
      then calibrate_loop timeToReadConsistency vs (calibrate_body v c)
      else Some (c, v # vs))"

text \<open>The values that lines 274 to 278 give the three variables.\<close>

definition calibration_start :: calibration where
  "calibration_start = \<lparr> lastRsValue = 0, countReadInRow = 0, count = 0 \<rparr>"

text \<open>
  \<open>stable_cycle\<close> is the macro \<^verbatim>\<open>MQ131_DEFAULT_STABLE_CYCLE\<close> of the header, which
  line 292 stores in a \<^verbatim>\<open>uint8_t\<close>. \<^verbatim>\<open>setTimeToRead\<close> takes a \<^verbatim>\<open>uint32_t\<close>: the 8 bits of
  \<open>count\<close> are extended with zeros.
\<close>

definition calibrate :: "8 word \<Rightarrow> 32 word \<Rightarrow> real list \<Rightarrow> MQ131 \<Rightarrow> (MQ131 \<times> real list) option" where
  "calibrate stable_cycle ms readings s =
     (let s1 = startHeater ms s
      in case calibrate_loop stable_cycle readings calibration_start of
           None \<Rightarrow> None
         | Some (c, rest) \<Rightarrow>
             Some (setTimeToRead (ucast (count c)) (setR0 (lastRsValue c) (stopHeater s1)),
                   rest))"

subsection \<open>The concentration model in the words of the specification\<close>

text \<open>
  Section 4.4 of the specification gives one table of coefficients and one formula for
  the three variants, where \<^verbatim>\<open>getO3\<close> has three branches. The table and the formula,
  for the comparison with \<open>getO3\<close>:
\<close>

fun spec_power_law :: "MQ131Model \<Rightarrow> real \<times> real \<times> MQ131Unit" where
  "spec_power_law LOW_CONCENTRATION = (9.4783, 2.3348, PPB)"
| "spec_power_law ETC_CONCENTRATION = (23.8887, 1.1101, PPB)"
| "spec_power_law HIGH_CONCENTRATION = (8.1399, 2.3297, PPM)"

definition spec_computeConcentration :: "MQ131 \<Rightarrow> MQ131Unit \<Rightarrow> real" where
  "spec_computeConcentration s outputUnit =
     (case spec_power_law (model s) of
        (scale, exponent, native) \<Rightarrow>
          (let ratio = lastValueRs s / valueR0 s * getEnvCorrectRatio s;
               raw = scale * ratio powr exponent
           in convert raw native outputUnit))"

subsection \<open>States and readings of the examples\<close>

text \<open>
  The sensor of the scenario of section 8 of the specification: the low concentration
  variant, a load of 10000 Ohm, \<open>R0\<close> at 1000000 Ohm, 80 seconds of warm-up; before
  any sample, and with a sample of 500000 Ohm.
\<close>

definition scenario :: MQ131 where
  "scenario = unstarted LOW_CONCENTRATION 10000 1000000 80"

definition scenario_sampled :: MQ131 where
  "scenario_sampled = scenario\<lparr> lastValueRs := 500000 \<rparr>"

text \<open>
  Readings that keep a calibration with \<open>stable_cycle = 1\<close> going for 258 passes: 256
  readings that each differ from the one before, then two more of the last value.
\<close>

definition long_readings :: "real list" where
  "long_readings = concat (replicate 128 [1, 2]) @ [2, 2]"

section \<open>Unit conversion\<close>

text \<open>
  C4. \<open>convert\<close> is the identity when the two units are equal. Otherwise only the
  target unit decides: to PPM the value is divided by 1000, to PPB it is multiplied by
  1000, to \<open>MG_M3\<close> the value (taken as it is from PPM, divided by 1000 from anything
  else) is multiplied by 48 / 22.71108, to \<open>UG_M3\<close> the value (taken as it is from PPB,
  multiplied by 1000 from anything else) is multiplied by 48 / 22.71108, and for a
  target that is none of the four units the input comes back unchanged.
\<close>

theorem convert_table:
  "convert x u u = x
   \<and> (unitIn \<noteq> PPM \<longrightarrow> convert x unitIn PPM = x / 1000)
   \<and> (unitIn \<noteq> PPB \<longrightarrow> convert x unitIn PPB = x * 1000)
   \<and> (unitIn \<noteq> MG_M3 \<longrightarrow>
        convert x unitIn MG_M3 = (if unitIn = PPM then x else x / 1000) * 48 / 22.71108)
   \<and> (unitIn \<noteq> UG_M3 \<longrightarrow>
        convert x unitIn UG_M3 = (if unitIn = PPB then x else x * 1000) * 48 / 22.71108)
   \<and> convert x unitIn (UNKNOWN_UNIT n) = x"
  by (simp add: convert_def)

theorem convert_table_witness:
  "convert 7 PPB PPB = 7
   \<and> PPB \<noteq> PPM \<and> convert 7 PPB PPM = 7 / 1000
   \<and> PPM \<noteq> PPB \<and> convert 7 PPM PPB = 7 * 1000
   \<and> PPB \<noteq> MG_M3 \<and> convert 7 PPB MG_M3 = 7 / 1000 * 48 / 22.71108
   \<and> PPM \<noteq> UG_M3 \<and> convert 7 PPM UG_M3 = 7 * 1000 * 48 / 22.71108
   \<and> convert 7 PPM (UNKNOWN_UNIT 9) = 7"
  using convert_table [of 7 PPB PPB 9] convert_table [of 7 PPB PPM 9]
  by simp

text \<open>
  In the arithmetic of the reals the conversion from PPB to PPM and back is the
  identity. The code does not compute in it: see C8 below.
\<close>

lemma convert_roundtrip_exact_arithmetic:
  "convert x PPB PPM = x / 1000 \<and> convert (convert x PPB PPM) PPM PPB = x"
  by (simp add: convert_def)

subsection \<open>The round trip in \<^verbatim>\<open>float\<close> arithmetic\<close>

lemma round_even_error: "\<bar>of_int (round_even r) - r\<bar> \<le> 1 / 2"
proof -
  have "of_int \<lfloor>r\<rfloor> \<le> r" "r < of_int \<lfloor>r\<rfloor> + 1"
    by linarith+
  then show ?thesis
    unfolding round_even_def Let_def by (auto simp: abs_le_iff)
qed

lemma binary32_ulp_pos: "0 < binary32_ulp x"
  by (simp add: binary32_ulp_def)

lemma binary32_ulp_at:
  assumes "0 < x" and "2 powr of_int k \<le> x" and "x < 2 powr of_int (k + 1)"
    and "- 126 \<le> k"
  shows "binary32_ulp x = 2 powr of_int (k - 23)"
proof -
  have "\<lfloor>log 2 x\<rfloor> = k"
    using assms floor_log_eq_powr_iff [of x 2 k] by simp
  with assms show ?thesis
    by (simp add: binary32_ulp_def)
qed

text \<open>
  In the normal range a result is rounded to a finite \<^verbatim>\<open>float\<close>, with a relative
  error of at most \<open>2 ^ (- 24)\<close>.
\<close>

lemma binary32_normal:
  assumes lo: "1 / 2 ^ 126 \<le> \<bar>x\<bar>" and hi: "\<bar>x\<bar> \<le> 2 ^ 127"
  shows "\<exists>r. binary32 x = Finite r \<and> \<bar>r - x\<bar> \<le> \<bar>x\<bar> / 2 ^ 24"
proof -
  let ?e = "\<lfloor>log 2 \<bar>x\<bar>\<rfloor>"
  let ?u = "binary32_ulp x"
  let ?r = "of_int (round_even (x / ?u)) * ?u"
  from lo have pos: "0 < \<bar>x\<bar>" and nz: "x \<noteq> 0"
    by (auto intro: less_le_trans [of 0 "1 / 2 ^ 126"])
  have "2 powr of_int (- 126) \<le> \<bar>x\<bar>"
    using lo by (simp add: powr_minus field_simps)
  then have "real_of_int (- 126) \<le> log 2 \<bar>x\<bar>"
    using pos by (simp add: le_log_iff)
  then have e: "- 126 \<le> ?e"
    by (simp add: le_floor_iff)
  have "2 powr of_int ?e \<le> \<bar>x\<bar>"
    using floor_log_eq_powr_iff [of "\<bar>x\<bar>" 2 ?e] pos by simp
  moreover have "?u = 2 powr of_int ?e / 2 ^ 23"
  proof -
    from e have "max ?e (- 126) = ?e"
      by simp
    then have "?u = 2 powr (of_int ?e - 23)"
      by (simp only: binary32_ulp_def of_int_diff of_int_numeral)
    also have "\<dots> = 2 powr of_int ?e / 2 powr 23"
      by (rule powr_diff)
    also have "\<dots> = 2 powr of_int ?e / 2 ^ 23"
      by simp
    finally show ?thesis .
  qed
  ultimately have u: "?u \<le> \<bar>x\<bar> / 2 ^ 23"
    by (simp add: field_simps)
  have upos: "0 < ?u"
    by (rule binary32_ulp_pos)
  have "?r - x = (of_int (round_even (x / ?u)) - x / ?u) * ?u"
    using upos by (simp add: field_simps)
  then have "\<bar>?r - x\<bar> = \<bar>of_int (round_even (x / ?u)) - x / ?u\<bar> * ?u"
    using upos by (simp add: abs_mult)
  also have "\<dots> \<le> 1 / 2 * ?u"
    using round_even_error [of "x / ?u"] upos by (intro mult_right_mono) simp_all
  also have "\<dots> \<le> \<bar>x\<bar> / 2 ^ 24"
    using u by simp
  finally have err: "\<bar>?r - x\<bar> \<le> \<bar>x\<bar> / 2 ^ 24" .
  have "\<bar>?r\<bar> \<le> \<bar>x\<bar> + \<bar>?r - x\<bar>"
    by simp
  also have "\<dots> \<le> \<bar>x\<bar> + \<bar>x\<bar> / 2 ^ 24"
    using err by simp
  also have "\<dots> < 2 ^ 128"
    using hi by simp
  finally have "\<not> 2 ^ 128 \<le> \<bar>?r\<bar>"
    by simp
  then have "binary32 x = Finite ?r"
    using nz by (simp add: binary32_def Let_def)
  with err show ?thesis
    by blast
qed

text \<open>The two roundings at 127: the floats around 0.127 are \<open>2 ^ (- 26)\<close> apart.\<close>

lemma binary32_ulp_127_thousandths: "binary32_ulp (127 / 1000) = 1 / 2 ^ 26"
proof -
  have "binary32_ulp (127 / 1000) = 2 powr of_int (- 3 - 23)"
    by (rule binary32_ulp_at) (simp_all add: powr_minus powr_add field_simps)
  also have "\<dots> = 1 / 2 ^ 26"
    by (simp add: powr_minus field_simps)
  finally show ?thesis .
qed

lemma binary32_127_thousandths: "binary32 (127 / 1000) = Finite (8522826 / 2 ^ 26)"
  by (simp add: binary32_def binary32_ulp_127_thousandths round_even_def Let_def)

lemma binary32_ulp_127_back: "binary32_ulp (8522826 / 2 ^ 26 * 1000) = 1 / 2 ^ 17"
proof -
  have "binary32_ulp (8522826 / 2 ^ 26 * 1000) = 2 powr of_int (6 - 23)"
    by (rule binary32_ulp_at) (simp_all add: powr_minus powr_add field_simps)
  also have "\<dots> = 1 / 2 ^ 17"
    by (simp add: powr_minus field_simps)
  finally show ?thesis .
qed

lemma binary32_127_back:
  "binary32 (8522826 / 2 ^ 26 * 1000) = Finite (16646145 / 2 ^ 17)"
  unfolding binary32_def Let_def binary32_ulp_127_back
  by (simp add: round_even_def Let_def)

text \<open>
  C8 (amended). From PPB to PPM \<open>convert\<close> returns the \<^verbatim>\<open>float\<close> nearest to
  \<open>x / 1000\<close>. For \<open>x\<close> in the normal range the round trip returns a \<^verbatim>\<open>float\<close> that is
  within \<open>\<bar>x\<bar> / 2 ^ 22\<close> of \<open>x\<close>, after a first result within \<open>\<bar>x / 1000\<bar> / 2 ^ 24\<close> of
  \<open>x / 1000\<close>; it need not be \<open>x\<close>.
\<close>

theorem convert_roundtrip_binary32:
  "convert_binary32 x PPB PPM = binary32 (x / 1000)
   \<and> (1 / 2 ^ 116 \<le> \<bar>x\<bar> \<and> \<bar>x\<bar> \<le> 2 ^ 126 \<longrightarrow>
        (\<exists>y z. convert_binary32 x PPB PPM = Finite y
           \<and> convert_binary32 y PPM PPB = Finite z
           \<and> \<bar>y - x / 1000\<bar> \<le> \<bar>x / 1000\<bar> / 2 ^ 24
           \<and> \<bar>z - x\<bar> \<le> \<bar>x\<bar> / 2 ^ 22))"
proof -
  have first: "convert_binary32 x PPB PPM = binary32 (x / 1000)"
    by (simp add: convert_binary32_def convert_def)
  have trip: "\<exists>y z. convert_binary32 x PPB PPM = Finite y
      \<and> convert_binary32 y PPM PPB = Finite z
      \<and> \<bar>y - x / 1000\<bar> \<le> \<bar>x / 1000\<bar> / 2 ^ 24
      \<and> \<bar>z - x\<bar> \<le> \<bar>x\<bar> / 2 ^ 22"
    if lo: "1 / 2 ^ 116 \<le> \<bar>x\<bar>" and hi: "\<bar>x\<bar> \<le> 2 ^ 126"
  proof -
    have "1 / 2 ^ 126 \<le> \<bar>x / 1000\<bar>"
      using lo by simp
    moreover have "\<bar>x / 1000\<bar> \<le> 2 ^ 127"
      using hi by simp
    ultimately obtain y where y: "binary32 (x / 1000) = Finite y"
      and ey: "\<bar>y - x / 1000\<bar> \<le> \<bar>x / 1000\<bar> / 2 ^ 24"
      using binary32_normal [of "x / 1000"] by blast
    from ey have ey': "\<bar>y * 1000 - x\<bar> \<le> \<bar>x\<bar> / 2 ^ 24"
      by (simp add: abs_le_iff field_simps)
    then have up: "\<bar>y * 1000\<bar> \<le> \<bar>x\<bar> + \<bar>x\<bar> / 2 ^ 24"
      and dn: "\<bar>x\<bar> - \<bar>x\<bar> / 2 ^ 24 \<le> \<bar>y * 1000\<bar>"
      by linarith+
    have "1 / 2 ^ 126 \<le> \<bar>y * 1000\<bar>"
      using lo dn by simp
    moreover have "\<bar>y * 1000\<bar> \<le> 2 ^ 127"
      using hi up by simp
    ultimately obtain z where z: "binary32 (y * 1000) = Finite z"
      and ez: "\<bar>z - y * 1000\<bar> \<le> \<bar>y * 1000\<bar> / 2 ^ 24"
      using binary32_normal [of "y * 1000"] by blast
    have "\<bar>z - x\<bar> \<le> \<bar>z - y * 1000\<bar> + \<bar>y * 1000 - x\<bar>"
      by simp
    also have "\<dots> \<le> (\<bar>x\<bar> + \<bar>x\<bar> / 2 ^ 24) / 2 ^ 24 + \<bar>x\<bar> / 2 ^ 24"
      using ez ey' up by (simp add: field_simps)
    also have "\<dots> \<le> \<bar>x\<bar> / 2 ^ 22"
      by simp
    finally have "\<bar>z - x\<bar> \<le> \<bar>x\<bar> / 2 ^ 22" .
    with y z ey show ?thesis
      by (auto simp: convert_binary32_def convert_def)
  qed
  from first trip show ?thesis
    by blast
qed

theorem convert_roundtrip_binary32_witness:
  "1 / 2 ^ 116 \<le> \<bar>127 :: real\<bar> \<and> \<bar>127 :: real\<bar> \<le> 2 ^ 126
   \<and> (\<exists>y z. convert_binary32 127 PPB PPM = Finite y
          \<and> convert_binary32 y PPM PPB = Finite z
          \<and> \<bar>y - 127 / 1000\<bar> \<le> \<bar>127 / 1000\<bar> / 2 ^ 24
          \<and> \<bar>z - 127\<bar> \<le> \<bar>127\<bar> / 2 ^ 22)"
proof -
  have range: "1 / 2 ^ 116 \<le> \<bar>127 :: real\<bar>" "\<bar>127 :: real\<bar> \<le> 2 ^ 126"
    by simp_all
  with convert_roundtrip_binary32 [of 127] show ?thesis
    by blast
qed

text \<open>
  C8, as the claim has it, fails at \<open>x = 127\<close>: the conversion to PPM returns
  \<open>8522826 / 2 ^ 26\<close> (0.12700000405), not \<open>127 / 1000\<close>, and converting that back
  returns \<open>16646145 / 2 ^ 17\<close> (127.00000763), the \<^verbatim>\<open>float\<close> next to 127.
\<close>

theorem convert_roundtrip_127_counterexample:
  "convert_binary32 127 PPB PPM = Finite (8522826 / 2 ^ 26)
   \<and> (8522826 / 2 ^ 26 :: real) \<noteq> 127 / 1000
   \<and> convert_binary32 (8522826 / 2 ^ 26) PPM PPB = Finite (16646145 / 2 ^ 17)
   \<and> (16646145 / 2 ^ 17 :: real) \<noteq> 127"
proof -
  have "convert 127 PPB PPM = 127 / 1000"
    by (simp add: convert_def)
  then have there: "convert_binary32 127 PPB PPM = Finite (8522826 / 2 ^ 26)"
    by (simp only: convert_binary32_def binary32_127_thousandths) simp
  have "convert (8522826 / 2 ^ 26) PPM PPB = 8522826 / 2 ^ 26 * 1000"
    by (simp add: convert_def)
  then have again: "convert_binary32 (8522826 / 2 ^ 26) PPM PPB = Finite (16646145 / 2 ^ 17)"
    by (simp only: convert_binary32_def binary32_127_back) simp
  have "(8522826 / 2 ^ 26 :: real) \<noteq> 127 / 1000" "(16646145 / 2 ^ 17 :: real) \<noteq> 127"
    by simp_all
  with there again show ?thesis
    by blast
qed

section \<open>The heater as a timing gate\<close>









lemma stopHeater_sentinel:
  "secLastStart (stopHeater s) = - 1 \<and> sint (secLastStart (stopHeater s)) < 0
   \<and> \<not> heater (stopHeater s)"
  by (simp add: stopHeater_def)




section \<open>Reading the resistance\<close>

text \<open>
  C2 (amended). \<open>readRs\<close> has no guard for the reading 0. It divides 5.0 by the
  voltage 0 and returns what IEEE 754 arithmetic makes of it: plus infinity when the
  load resistance is positive, not-a-number when the load resistance is 0. There is no
  value for an invalid sample. For every other reading the result is the finite
  number \<open>(5 / (reading / 1024 * 5) - 1) * RL\<close>.
\<close>

theorem readRs_no_guard:
  "readRs 0 s = (if valueRL s = 0 then NaN else PosInf)
   \<and> \<not> is_finite (readRs 0 s)
   \<and> (valueSensor \<noteq> 0 \<longrightarrow>
        readRs valueSensor s =
          Finite ((5 / (real (unat valueSensor) / 1024 * 5) - 1) * real (unat (valueRL s))))"
proof -
  have zero: "readRs 0 s = (if valueRL s = 0 then NaN else PosInf)"
  proof (cases "valueRL s = 0")
    case True
    then show ?thesis
      by (simp add: readRs_def float_div_def float_sub_def float_mul_def)
  next
    case False
    then have "0 < unat (valueRL s)"
      by (simp add: unat_gt_0)
    then have "0 < real (unat (valueRL s))"
      by (simp only: of_nat_0_less_iff)
    with False show ?thesis
      by (simp add: readRs_def float_div_def float_sub_def float_mul_def)
  qed
  have other: "readRs valueSensor s =
      Finite ((5 / (real (unat valueSensor) / 1024 * 5) - 1) * real (unat (valueRL s)))"
    if "valueSensor \<noteq> 0"
  proof -
    from that have "0 < unat valueSensor"
      by (simp add: unat_gt_0)
    then have "0 < real (unat valueSensor)"
      by (simp only: of_nat_0_less_iff)
    then have "real (unat valueSensor) / 1024 * 5 \<noteq> 0"
      by simp
    then show ?thesis
      by (simp add: readRs_def float_div_def float_sub_def float_mul_def)
  qed
  from zero have "\<not> is_finite (readRs 0 s)"
    by (simp add: is_finite_def)
  with zero other show ?thesis
    by blast
qed

theorem readRs_no_guard_witness:
  "(512 :: 16 word) \<noteq> 0 \<and> readRs 512 scenario = Finite 10000
   \<and> readRs 0 scenario = PosInf"
  using readRs_no_guard [of scenario 512]
  by (simp add: scenario_def unstarted_def)

text \<open>
  C2, as the claim has it, fails: for the reading 0 the sensor of the scenario gets
  plus infinity from \<open>readRs\<close>, not a finite or a distinguished value.
\<close>

theorem readRs_zero_counterexample:
  "readRs 0 scenario = PosInf \<and> \<not> is_finite (readRs 0 scenario)"
  by (simp add: readRs_def float_div_def float_sub_def float_mul_def is_finite_def
      scenario_def unstarted_def)

section \<open>The correction for temperature and humidity\<close>

text \<open>
  C6. At 20 degrees and 60 percent \<open>getEnvCorrectRatio\<close> returns the constant 1.06.
  The interpolation that the other conditions at 60 percent go through would give
  1.0881 there, which is another number.
\<close>

theorem getEnvCorrectRatio_reference:
  "getEnvCorrectRatio (setEnv 20 60 s) = 1.06
   \<and> ratio_below_60 20 60 = 1.0881
   \<and> ratio_below_60 20 60 \<noteq> 1.06"
  by (simp add: getEnvCorrectRatio_def setEnv_def ratio_below_60_def Hratio30_def
      Hratio60_def)

text \<open>
  C7. At 60 percent of humidity the expression of the branch above 60 and the
  expression of the branch up to 60 have the same value, for every temperature: the
  value \<open>-0.0119 * temperature + 1.3261\<close> of the line fitted at 60 percent. It is
  the value that \<open>getEnvCorrectRatio\<close> returns at 60 percent when the temperature is
  not 20, and above 60 percent the function returns the upper expression. (The
  equations are those of exact arithmetic, as everywhere in this model.)
\<close>

theorem getEnvCorrectRatio_continuous_at_60:
  "ratio_above_60 t 60 = ratio_below_60 t 60
   \<and> ratio_below_60 t 60 = - 0.0119 * real_of_int t + 1.3261
   \<and> (sint tempCels \<noteq> 20 \<longrightarrow>
        getEnvCorrectRatio (setEnv tempCels 60 s)
          = - 0.0119 * real_of_int (sint tempCels) + 1.3261)
   \<and> (60 < uint humPc \<longrightarrow>
        getEnvCorrectRatio (setEnv tempCels humPc s)
          = ratio_above_60 (sint tempCels) (uint humPc))"
proof -
  have below: "ratio_below_60 u 60 = - 0.0119 * real_of_int u + 1.3261" for u
    by (simp add: ratio_below_60_def Hratio30_def Hratio60_def field_simps)
  have above: "ratio_above_60 t 60 = - 0.0119 * real_of_int t + 1.3261"
    by (simp add: ratio_above_60_def Hratio60_def)
  have at_60: "getEnvCorrectRatio (setEnv tempCels 60 s) = ratio_below_60 (sint tempCels) 60"
    if "sint tempCels \<noteq> 20"
    using that by (simp add: getEnvCorrectRatio_def setEnv_def)
  have over_60: "getEnvCorrectRatio (setEnv tempCels humPc s)
      = ratio_above_60 (sint tempCels) (uint humPc)"
    if "60 < uint humPc"
    using that by (simp add: getEnvCorrectRatio_def setEnv_def)
  show ?thesis
    using below [of t] below [of "sint tempCels"] above at_60 over_60
    by simp
qed

theorem getEnvCorrectRatio_continuous_at_60_witness:
  "sint (25 :: 8 word) \<noteq> 20 \<and> 60 < uint (61 :: 8 word)
   \<and> ratio_above_60 25 60 = 1.0286 \<and> ratio_below_60 25 60 = 1.0286
   \<and> getEnvCorrectRatio (setEnv 25 60 scenario) = 1.0286
   \<and> getEnvCorrectRatio (setEnv 25 61 scenario) = ratio_above_60 25 61"
  using getEnvCorrectRatio_continuous_at_60 [of 25 25 scenario 61]
    getEnvCorrectRatio_continuous_at_60 [of 25 25 scenario 60]
  by simp

section \<open>The concentration\<close>

text \<open>
  None of the functions above writes \<open>lastValueRs\<close>: it keeps the value it had
  before any sample through starting and stopping the heater, setting the parameters
  and the conditions, and calibrating.
\<close>

lemma lastValueRs_kept:
  "lastValueRs (startHeater ms s) = lastValueRs s"
  "lastValueRs (stopHeater s) = lastValueRs s"
  "lastValueRs (setTimeToRead sec s) = lastValueRs s"
  "lastValueRs (setR0 r s) = lastValueRs s"
  "lastValueRs (setEnv tempCels humPc s) = lastValueRs s"
  by (simp_all add: startHeater_def stopHeater_def setTimeToRead_def setR0_def setEnv_def)

lemma lastValueRs_calibrate:
  "calibrate stable_cycle ms readings s = Some (s', rest) \<Longrightarrow> lastValueRs s' = lastValueRs s"
  by (auto simp: calibrate_def Let_def lastValueRs_kept split: option.splits)

text \<open>
  C5. While no sample has been taken, the last measured resistance is unset (negative)
  and \<open>getO3\<close> returns 0 for every unit; it does so in the state before any start.
\<close>

theorem getO3_unset:
  "(lastValueRs s < 0 \<longrightarrow> getO3 s unit = 0)
   \<and> getO3 (unstarted m rl r0 t2r) unit = 0"
  by (simp add: getO3_def unstarted_def)

theorem getO3_unset_witness:
  "lastValueRs scenario < 0 \<and> getO3 scenario UG_M3 = 0
   \<and> getO3 scenario (UNKNOWN_UNIT 7) = 0"
  using getO3_unset [of scenario UG_M3] getO3_unset [of scenario "UNKNOWN_UNIT 7"]
  by (simp add: scenario_def unstarted_def)

text \<open>
  C3. When the last measured resistance is set, \<open>getO3\<close> is the computation of the
  specification: the ratio is \<open>lastValueRs / R0\<close> times the correction ratio; the
  result is \<open>scale * ratio ^ exponent\<close>, converted from the native unit of the variant
  to the unit asked for; scale, exponent and native unit are 9.4783, 2.3348 and PPB
  for the low concentration variant, 23.8887, 1.1101 and PPB for ETC, 8.1399, 2.3297
  and PPM for the high concentration variant. This is stated for the states where the
  division and the power are those of float arithmetic: a finite resistance that is
  set, \<open>R0\<close> other than 0, and a ratio that is not negative.
\<close>

theorem getO3_power_law:
  "(0 \<le> lastValueRs s \<and> valueR0 s \<noteq> 0
      \<and> 0 \<le> lastValueRs s / valueR0 s * getEnvCorrectRatio s \<longrightarrow>
      getO3 s unit = spec_computeConcentration s unit
      \<and> spec_computeConcentration s unit =
          convert (fst (spec_power_law (model s))
                     * (lastValueRs s / valueR0 s * getEnvCorrectRatio s)
                         powr fst (snd (spec_power_law (model s))))
            (snd (snd (spec_power_law (model s)))) unit)
   \<and> spec_power_law LOW_CONCENTRATION = (9.4783, 2.3348, PPB)
   \<and> spec_power_law ETC_CONCENTRATION = (23.8887, 1.1101, PPB)
   \<and> spec_power_law HIGH_CONCENTRATION = (8.1399, 2.3297, PPM)"
  by (cases "model s") (simp_all add: getO3_def spec_computeConcentration_def)

theorem getO3_power_law_witness:
  "0 \<le> lastValueRs scenario_sampled \<and> valueR0 scenario_sampled \<noteq> 0
   \<and> 0 \<le> lastValueRs scenario_sampled / valueR0 scenario_sampled
           * getEnvCorrectRatio scenario_sampled
   \<and> getO3 scenario_sampled PPB = 9.4783 * 0.53 powr 2.3348
   \<and> getO3 scenario_sampled PPM = 9.4783 * 0.53 powr 2.3348 / 1000"
  using getO3_power_law [of scenario_sampled PPB] getO3_power_law [of scenario_sampled PPM]
  by (simp add: scenario_sampled_def scenario_def unstarted_def getEnvCorrectRatio_def
      convert_def)

section \<open>Calibration\<close>

lemma calibrate_body_count: "count (calibrate_body v c) = count c + 1"
  by (simp add: calibrate_body_def Let_def)

text \<open>
  When the loop ends, it has taken a prefix of the readings, one in each pass, and
  \<open>count\<close> has been incremented once for each.
\<close>

lemma calibrate_loop_Some:
  "calibrate_loop t vs c = Some (c', rest) \<Longrightarrow>
     length rest \<le> length vs \<and> rest = drop (length vs - length rest) vs
     \<and> count c' = count c + of_nat (length vs - length rest)"
proof (induction vs arbitrary: c)
  case Nil
  then show ?case by (simp split: if_splits)
next
  case (Cons v vs)
  show ?case
  proof (cases "countReadInRow c \<le> t")
    case True
    with Cons.prems have run: "calibrate_loop t vs (calibrate_body v c) = Some (c', rest)"
      by simp
    from Cons.IH [OF run] have le: "length rest \<le> length vs"
      and dr: "rest = drop (length vs - length rest) vs"
      and cn: "count c' = count (calibrate_body v c) + of_nat (length vs - length rest)"
      by simp_all
    from le have eq: "length (v # vs) - length rest = Suc (length vs - length rest)"
      by simp
    show ?thesis
      using le dr cn by (simp only: eq calibrate_body_count) simp
  next
    case False
    with Cons.prems show ?thesis by simp
  qed
qed

text \<open>
  The result \<open>None\<close> says that the loop is still running when the readings are used
  up: its condition holds for the variables that the passes so far have made, and on
  more readings the loop goes on from there.
\<close>

lemma calibrate_loop_None:
  "calibrate_loop t vs c = None \<Longrightarrow>
     countReadInRow (fold calibrate_body vs c) \<le> t
     \<and> calibrate_loop t (vs @ ws) c = calibrate_loop t ws (fold calibrate_body vs c)"
  by (induction vs arbitrary: c) (simp_all split: if_splits)

lemma calibrate_loop_goes_on:
  assumes "calibrate_loop t vs c = None"
    and "calibrate_loop t (vs @ ws) c = Some (c', rest)"
  shows "length rest < length ws"
proof -
  let ?c = "fold calibrate_body vs c"
  from calibrate_loop_None [OF assms(1), of ws] assms(2)
  have row: "countReadInRow ?c \<le> t" and run: "calibrate_loop t ws ?c = Some (c', rest)"
    by simp_all
  show ?thesis
  proof (cases ws)
    case Nil
    with row run show ?thesis by simp
  next
    case (Cons w ws')
    with row run have "calibrate_loop t ws' (calibrate_body w ?c) = Some (c', rest)"
      by simp
    from calibrate_loop_Some [OF this] Cons show ?thesis
      by simp
  qed
qed

lemma calibrate_Some:
  "calibrate stable_cycle ms readings s = Some (s', rest) \<longleftrightarrow>
     (\<exists>c. calibrate_loop stable_cycle readings calibration_start = Some (c, rest)
        \<and> s' = setTimeToRead (ucast (count c))
                 (setR0 (lastRsValue c) (stopHeater (startHeater ms s))))"
  by (auto simp: calibrate_def Let_def split: option.splits)

lemma calibrate_None:
  "calibrate stable_cycle ms readings s = None \<longleftrightarrow>
     calibrate_loop stable_cycle readings calibration_start = None"
  by (auto simp: calibrate_def Let_def split: option.splits)

lemma six_readings_loop:
  "calibrate_loop 5 [100, 100, 100, 100, 100, 100] calibration_start = None"
  by (simp add: calibration_start_def calibrate_body_def uint32_of_float_def)

lemma seven_readings_loop:
  "calibrate_loop 5 [100, 100, 100, 100, 100, 100, 100] calibration_start
     = Some (\<lparr> lastRsValue = 100, countReadInRow = 6, count = 7 \<rparr>, [])"
  by (simp add: calibration_start_def calibrate_body_def uint32_of_float_def)

lemma six_readings_loop_threshold_4:
  "calibrate_loop 4 [100, 100, 100, 100, 100, 100] calibration_start
     = Some (\<lparr> lastRsValue = 100, countReadInRow = 5, count = 6 \<rparr>, [])"
  by (simp add: calibration_start_def calibrate_body_def uint32_of_float_def)

lemma six_readings_variables:
  "fold calibrate_body [100, 100, 100, 100, 100, 100] calibration_start
     = \<lparr> lastRsValue = 100, countReadInRow = 5, count = 6 \<rparr>"
  by (simp add: calibration_start_def calibrate_body_def uint32_of_float_def)

text \<open>
  C1 (amended). With the threshold 5 and readings that are all 100, the loop is still
  running after 6 passes: the six readings alone do not end it, and whatever readings
  follow them, at least one more is taken. It ends after exactly 7 passes, that is on
  seven readings of 100, and then \<open>R0\<close> is 100 and the warm-up duration is 7.
  (Six readings of 100 end the loop after exactly 6 passes, with \<open>R0\<close> at 100 and a
  warm-up duration of 6, when the threshold is 4.)
\<close>

theorem calibrate_seven_identical_readings:
  "calibrate 5 ms [100, 100, 100, 100, 100, 100, 100] s
     = Some (setTimeToRead 7 (setR0 100 (stopHeater (startHeater ms s))), [])
   \<and> getR0 (setTimeToRead 7 (setR0 100 (stopHeater (startHeater ms s)))) = 100
   \<and> getTimeToRead (setTimeToRead 7 (setR0 100 (stopHeater (startHeater ms s)))) = 7
   \<and> calibrate 5 ms [100, 100, 100, 100, 100, 100] s = None
   \<and> (calibrate 5 ms ([100, 100, 100, 100, 100, 100] @ ws) s = Some (s', rest) \<longrightarrow>
        length rest < length ws)
   \<and> calibrate 4 ms [100, 100, 100, 100, 100, 100] s
       = Some (setTimeToRead 6 (setR0 100 (stopHeater (startHeater ms s))), [])"
proof -
  have four: "calibrate 4 ms [100, 100, 100, 100, 100, 100] s
      = Some (setTimeToRead 6 (setR0 100 (stopHeater (startHeater ms s))), [])"
    unfolding calibrate_def Let_def six_readings_loop_threshold_4 by simp
  have seven: "calibrate 5 ms [100, 100, 100, 100, 100, 100, 100] s
      = Some (setTimeToRead 7 (setR0 100 (stopHeater (startHeater ms s))), [])"
    unfolding calibrate_def Let_def seven_readings_loop by simp
  have six: "calibrate 5 ms [100, 100, 100, 100, 100, 100] s = None"
    unfolding calibrate_None by (rule six_readings_loop)
  have more: "length rest < length ws"
    if "calibrate 5 ms ([100, 100, 100, 100, 100, 100] @ ws) s = Some (s', rest)"
  proof -
    from that obtain c where
      "calibrate_loop 5 ([100, 100, 100, 100, 100, 100] @ ws) calibration_start
         = Some (c, rest)"
      unfolding calibrate_Some by blast
    with six_readings_loop show ?thesis
      by (rule calibrate_loop_goes_on)
  qed
  have "getR0 (setTimeToRead 7 (setR0 100 (stopHeater (startHeater ms s)))) = 100"
    and "getTimeToRead (setTimeToRead 7 (setR0 100 (stopHeater (startHeater ms s)))) = 7"
    by (simp_all add: getR0_def getTimeToRead_def setTimeToRead_def setR0_def)
  with seven six more four show ?thesis
    by blast
qed

theorem calibrate_seven_identical_readings_witness:
  "calibrate 5 0 ([100, 100, 100, 100, 100, 100] @ [100]) scenario
     = Some (setTimeToRead 7 (setR0 100 (stopHeater (startHeater 0 scenario))), [])
   \<and> length ([] :: real list) < length [100 :: real]"
  using calibrate_seven_identical_readings [of 0 scenario "[100]"
      "setTimeToRead 7 (setR0 100 (stopHeater (startHeater 0 scenario)))" "[]"]
  by simp

text \<open>
  C1, as the claim has it, fails: on the six readings of 100 the loop has not
  ended (after them the stability counter is 5, which does not exceed the threshold
  5, and \<open>count\<close> is 6), and with the seventh reading of 100 that it then takes, it ends
  with a warm-up duration of 7, not 6.
\<close>

theorem calibrate_six_readings_counterexample:
  "calibrate 5 0 [100, 100, 100, 100, 100, 100] scenario = None
   \<and> fold calibrate_body [100, 100, 100, 100, 100, 100] calibration_start
       = \<lparr> lastRsValue = 100, countReadInRow = 5, count = 6 \<rparr>
   \<and> calibrate 5 0 [100, 100, 100, 100, 100, 100, 100] scenario
       = Some (setTimeToRead 7 (setR0 100 (stopHeater (startHeater 0 scenario))), [])
   \<and> secToRead (setTimeToRead 7 (setR0 100 (stopHeater (startHeater 0 scenario)))) \<noteq> 6"
proof -
  have "calibrate 5 0 [100, 100, 100, 100, 100, 100] scenario = None"
    unfolding calibrate_None by (rule six_readings_loop)
  moreover have "calibrate 5 0 [100, 100, 100, 100, 100, 100, 100] scenario
      = Some (setTimeToRead 7 (setR0 100 (stopHeater (startHeater 0 scenario))), [])"
    unfolding calibrate_def Let_def seven_readings_loop by simp
  moreover have
    "secToRead (setTimeToRead 7 (setR0 100 (stopHeater (startHeater 0 scenario)))) \<noteq> 6"
    by (simp add: setTimeToRead_def)
  ultimately show ?thesis
    using six_readings_variables by blast
qed

lemma long_readings_loop:
  "calibrate_loop 1 long_readings calibration_start
     = Some (\<lparr> lastRsValue = 2, countReadInRow = 2, count = 2 \<rparr>, [])"
  by code_simp

lemma length_long_readings: "length long_readings = 258"
  by code_simp

text \<open>
  C10. \<open>count\<close> and \<open>countReadInRow\<close> are 8-bit unsigned integers. When a
  calibration ends after \<open>n\<close> passes of the loop (it has taken the first \<open>n\<close> of the
  readings), the warm-up duration that it stores is \<open>n mod 256\<close>.
\<close>

theorem calibrate_count_wraps:
  assumes "calibrate stable_cycle ms readings s = Some (s', rest)"
  shows "length rest \<le> length readings
     \<and> rest = drop (length readings - length rest) readings
     \<and> unat (getTimeToRead s') = (length readings - length rest) mod 256"
proof -
  from assms obtain c where
    run: "calibrate_loop stable_cycle readings calibration_start = Some (c, rest)"
    and s': "s' = setTimeToRead (ucast (count c))
                   (setR0 (lastRsValue c) (stopHeater (startHeater ms s)))"
    unfolding calibrate_Some by blast
  from calibrate_loop_Some [OF run]
  have le: "length rest \<le> length readings"
    and dr: "rest = drop (length readings - length rest) readings"
    and cn: "count c = of_nat (length readings - length rest)"
    by (simp_all add: calibration_start_def)
  have "uint (getTimeToRead s') = uint (count c)"
    by (simp add: s' getTimeToRead_def setTimeToRead_def uint_up_ucast is_up)
  then have "unat (getTimeToRead s') = unat (count c)"
    by (simp only: unat_eq_nat_uint)
  also have "\<dots> = (length readings - length rest) mod 256"
    by (simp add: cn unat_of_nat)
  finally show ?thesis
    using le dr by simp
qed

theorem calibrate_count_wraps_witness:
  "calibrate 1 0 long_readings scenario
     = Some (setTimeToRead 2 (setR0 2 (stopHeater (startHeater 0 scenario))), [])
   \<and> length long_readings - length ([] :: real list) = 258
   \<and> unat (getTimeToRead (setTimeToRead 2 (setR0 2 (stopHeater (startHeater 0 scenario)))))
       = 258 mod 256"
proof -
  have run: "calibrate 1 0 long_readings scenario
      = Some (setTimeToRead 2 (setR0 2 (stopHeater (startHeater 0 scenario))), [])"
    unfolding calibrate_def Let_def long_readings_loop by simp
  from calibrate_count_wraps [OF run] run show ?thesis
    by (simp add: length_long_readings)
qed

end
